theory Spec2Isabelle
  imports Complex_Main
begin

section \<open>Recipe finder: the application object of \<open>src/app.js\<close>\<close>

text \<open>
  The class \<open>PremiumRecipeFinderApp\<close> keeps everything in \<open>this.state\<close> and
  \<open>this.currentRecipe\<close>; every method mutates that object. The model passes the object
  explicitly. What the browser owns and the methods reach through calls is part of the
  same record: the interval timers that are scheduled and not yet cleared, the toasts
  shown so far, and the stream of numbers \<open>Math.random()\<close> hands out. DOM rendering
  (\<open>render...\<close>, \<open>update...Display\<close>, \<open>update...Chips\<close>) changes no field and is left out.

  A string is the list of its code units, and the code units of the model are those
  below 256 (the characters \<open>U+0000\<close> to \<open>U+00FF\<close>). On these,
  \<open>String.prototype.toLowerCase\<close> maps each of \<open>A..Z\<close>, \<open>U+00C0..U+00D6\<close> and
  \<open>U+00D8..U+00DE\<close> to the character 32 places further and leaves every other
  character as it is, and \<open>String.prototype.trim\<close> strips from both ends the white space
  and line terminators \<open>U+0009..U+000D\<close>, \<open>U+0020\<close> and \<open>U+00A0\<close>.
\<close>

subsection \<open>Strings\<close>

definition is_upper :: "char \<Rightarrow> bool" where
  "is_upper c =
     (let n = (of_char c :: nat)
      in (65 \<le> n \<and> n \<le> 90) \<or> (192 \<le> n \<and> n \<le> 214) \<or> (216 \<le> n \<and> n \<le> 222))"

definition lower_char :: "char \<Rightarrow> char" where
  "lower_char c = (if is_upper c then char_of ((of_char c :: nat) + 32) else c)"

definition toLowerCase :: "string \<Rightarrow> string" where
  "toLowerCase s = map lower_char s"



text \<open>A string in a condition is truthy when it is not empty.\<close>

definition truthy :: "string \<Rightarrow> bool" where
  "truthy s = (s \<noteq> [])"

subsection \<open>Data\<close>

text \<open>
  A recipe summary as the catalog sends it. \<open>strCategory\<close> and \<open>strArea\<close> may be missing
  (\<open>None\<close> is \<open>undefined\<close> or \<open>null\<close>); \<open>matchingIngredients\<close> is the property the search
  adds with \<open>{...recipe, matchingIngredients: ...}\<close>.
\<close>

record recipe =
  idMeal :: string
  strMeal :: string
  strMealThumb :: string
  strCategory :: "string option"
  strArea :: "string option"
  matchingIngredients :: "string list option"

record currentFilter =
  time :: string
  category :: string
  area :: string

record timerState =
  isRunning :: bool
  isPaused :: bool
  timeRemaining :: int
  interval :: "nat option"

datatype toast =
    RemovedFromFavorites
  | AddedToFavorites
  | TimerFinished

record app =
  selectedIngredients :: "string list"
  allRecipes :: "recipe list"
  filteredRecipes :: "recipe list"
  isLoading :: bool
  error :: "string option"
  currentFilter :: currentFilter
  favorites :: "string set"
  currentServings :: int
  timerState :: timerState
  currentRecipe :: "recipe option"
  intervals :: "nat list"
  intervalCount :: nat
  toasts :: "toast list"
  random :: "nat \<Rightarrow> rat"
  drawn :: nat

text \<open>
  \<open>selectedIngredients\<close> is a JavaScript \<open>Set\<close> of strings: it enumerates in insertion
  order (\<open>Array.from\<close>), so it is a list, and \<open>add\<close> appends only what \<open>has\<close> does not
  find. \<open>favorites\<close> is a \<open>Set\<close> that is only ever asked \<open>has\<close>, so it is a set.
  \<open>intervals\<close> holds the handles \<open>setInterval\<close> returned and \<open>clearInterval\<close> has not
  cancelled; \<open>random n\<close> is the value of the \<open>n\<close>-th call of \<open>Math.random()\<close> and
  \<open>drawn\<close> counts the calls made.
\<close>

definition initial_app :: "(nat \<Rightarrow> rat) \<Rightarrow> app" where
  "initial_app rnd =
     \<lparr> selectedIngredients = [], allRecipes = [], filteredRecipes = [],
       isLoading = False, error = None,
       currentFilter = \<lparr> time = [], category = [], area = [] \<rparr>,
       favorites = {}, currentServings = 4,
       timerState = \<lparr> isRunning = False, isPaused = False, timeRemaining = 0,
                      interval = None \<rparr>,
       currentRecipe = None,
       intervals = [], intervalCount = 0, toasts = [], random = rnd, drawn = 0 \<rparr>"

subsection \<open>The catalog\<close>

text \<open>
  What one \<open>fetch\<close> of the filter-by-ingredient endpoint can come back with: the promise
  rejects (no network), or a response arrives with its \<open>ok\<close> flag and a body. The body is
  not JSON, or it is JSON: \<open>null\<close>, some other value that is not an object with a
  \<open>meals\<close> property (reading \<open>.meals\<close> gives \<open>undefined\<close>), or an object whose \<open>meals\<close> is
  \<open>null\<close> or an array of summaries, as the catalog's schema has it.
\<close>

datatype body =
    NotJson
  | JsonNull
  | NoMealsField
  | MealsNull
  | Meals "recipe list"

datatype fetch_outcome =
    NetworkFailure
  | Response bool body

type_synonym catalog = "string \<Rightarrow> fetch_outcome"

datatype fetch_error =
    TransportFailure
  | BadStatus string
  | MalformedBody
  | NullBody

subsection \<open>Searching\<close>

text \<open>
  \<open>fetchRecipesByIngredient\<close>: the \<open>fetch\<close> may reject; a response that is not \<open>ok\<close>
  throws before the body is read; \<open>response.json()\<close> rejects on a body that is not JSON;
  reading \<open>data.meals\<close> of \<open>null\<close> throws; otherwise the result is \<open>data.meals || []\<close>.
\<close>

definition fetchRecipesByIngredient :: "catalog \<Rightarrow> string \<Rightarrow> fetch_error + recipe list" where
  "fetchRecipesByIngredient cat ingredient =
     (case cat ingredient of
        NetworkFailure \<Rightarrow> Inl TransportFailure
      | Response ok b \<Rightarrow>
          if \<not> ok then Inl (BadStatus ingredient)
          else (case b of
                  NotJson \<Rightarrow> Inl MalformedBody
                | JsonNull \<Rightarrow> Inl NullBody
                | NoMealsField \<Rightarrow> Inr []
                | MealsNull \<Rightarrow> Inr []
                | Meals ms \<Rightarrow> Inr ms))"

text \<open>
  \<open>Promise.all\<close>: the values of all the promises in their order, or a rejection as soon
  as one of them rejects.
\<close>

fun promise_all :: "('e + 'a) list \<Rightarrow> 'e + 'a list" where
  "promise_all [] = Inr []"
| "promise_all (Inl e # ps) = Inl e"
| "promise_all (Inr v # ps) =
     (case promise_all ps of Inl e \<Rightarrow> Inl e | Inr vs \<Rightarrow> Inr (v # vs))"

text \<open>\<open>deduplicateRecipes\<close>: a \<open>filter\<close> whose callback records the identifiers seen.\<close>

fun dedup_seen :: "string set \<Rightarrow> recipe list \<Rightarrow> recipe list" where
  "dedup_seen seen [] = []"
| "dedup_seen seen (r # rs) =
     (if idMeal r \<in> seen then dedup_seen seen rs
      else r # dedup_seen (insert (idMeal r) seen) rs)"

definition deduplicateRecipes :: "recipe list \<Rightarrow> recipe list" where
  "deduplicateRecipes recipes = dedup_seen {} recipes"

definition getMatchingIngredients :: "recipe \<Rightarrow> string list \<Rightarrow> string list" where
  "getMatchingIngredients r searchIngredients =
     (let maxMatches = min (length searchIngredients) 3 in take maxMatches searchIngredients)"

text \<open>
  The time filter keeps a recipe when \<open>Math.random() > (1 - ratio)\<close>. The thresholds are
  the doubles that \<open>1 - 0.7\<close>, \<open>1 - 0.8\<close> and \<open>1 - 0.6\<close> evaluate to, written exactly.
\<close>

definition time_threshold :: "string \<Rightarrow> rat" where
  "time_threshold t =
     (if t = ''quick'' then 1351079888211149 / 4503599627370496
      else if t = ''medium'' then 900719925474099 / 4503599627370496
      else 3602879701896397 / 9007199254740992)"

fun filter_random :: "(nat \<Rightarrow> rat) \<Rightarrow> nat \<Rightarrow> rat \<Rightarrow> 'a list \<Rightarrow> 'a list" where
  "filter_random rnd k t [] = []"
| "filter_random rnd k t (x # xs) =
     (if rnd k > t then x # filter_random rnd (Suc k) t xs
      else filter_random rnd (Suc k) t xs)"

definition tag_matches :: "string option \<Rightarrow> string \<Rightarrow> bool" where
  "tag_matches tag wanted =
     (case tag of None \<Rightarrow> False
      | Some v \<Rightarrow> truthy v \<and> toLowerCase v = toLowerCase wanted)"

definition applyFilters :: "app \<Rightarrow> app" where
  "applyFilters s =
     (let f0 = allRecipes s;
          f1 = (if truthy (category (currentFilter s))
                then filter (\<lambda>r. tag_matches (strCategory r) (category (currentFilter s))) f0
                else f0);
          f2 = (if truthy (area (currentFilter s))
                then filter (\<lambda>r. tag_matches (strArea r) (area (currentFilter s))) f1
                else f1)
      in if truthy (time (currentFilter s))
         then s\<lparr> filteredRecipes :=
                   filter_random (random s) (drawn s) (time_threshold (time (currentFilter s))) f2,
                 drawn := drawn s + length f2 \<rparr>
         else s\<lparr> filteredRecipes := f2 \<rparr>)"

definition search_failed :: string where
  "search_failed = ''Failed to search recipes. Please try again.''"

definition searchRecipes :: "catalog \<Rightarrow> app \<Rightarrow> app" where
  "searchRecipes cat s =
     (if length (selectedIngredients s) = 0 then s
      else
        let s1 = s\<lparr> isLoading := True, error := None \<rparr>;
            ingredients = selectedIngredients s1;
            searchPromises = map (fetchRecipesByIngredient cat) ingredients
        in case promise_all searchPromises of
             Inl e \<Rightarrow> s1\<lparr> error := Some search_failed, isLoading := False \<rparr>
           | Inr results \<Rightarrow>
               let all = concat results;
                   uniqueRecipes = deduplicateRecipes all;
                   recipesWithMatches =
                     map (\<lambda>r. r\<lparr> matchingIngredients :=
                                     Some (getMatchingIngredients r ingredients) \<rparr>)
                         uniqueRecipes
               in applyFilters (s1\<lparr> allRecipes := recipesWithMatches, isLoading := False \<rparr>))"

subsection \<open>Ingredients\<close>




subsection \<open>Favorites\<close>

definition showToast :: "toast \<Rightarrow> app \<Rightarrow> app" where
  "showToast t s = s\<lparr> toasts := toasts s @ [t] \<rparr>"

definition toggleFavorite :: "app \<Rightarrow> app" where
  "toggleFavorite s =
     (case currentRecipe s of
        None \<Rightarrow> s
      | Some r \<Rightarrow>
          let recipeId = idMeal r
          in if recipeId \<in> favorites s
             then showToast RemovedFromFavorites (s\<lparr> favorites := favorites s - {recipeId} \<rparr>)
             else showToast AddedToFavorites (s\<lparr> favorites := insert recipeId (favorites s) \<rparr>))"

subsection \<open>The timer\<close>

text \<open>
  \<open>setInterval\<close> schedules a new periodic callback and returns its handle, a positive
  number never handed out before; \<open>clearInterval\<close> cancels the callback with that handle.
\<close>

definition setInterval :: "app \<Rightarrow> nat \<times> app" where
  "setInterval s =
     (let h = Suc (intervalCount s)
      in (h, s\<lparr> intervals := h # intervals s, intervalCount := h \<rparr>))"

definition clearInterval :: "nat \<Rightarrow> app \<Rightarrow> app" where
  "clearInterval h s = s\<lparr> intervals := removeAll h (intervals s) \<rparr>"

definition setTimer :: "int \<Rightarrow> app \<Rightarrow> app" where
  "setTimer seconds s = s\<lparr> timerState := (timerState s)\<lparr> timeRemaining := seconds \<rparr> \<rparr>"

definition startTimer :: "app \<Rightarrow> app" where
  "startTimer s =
     (let s1 = (if timeRemaining (timerState s) \<le> 0 then setTimer 300 s else s);
          s2 = s1\<lparr> timerState := (timerState s1)\<lparr> isRunning := True \<rparr> \<rparr>;
          (h, s3) = setInterval s2
      in s3\<lparr> timerState := (timerState s3)\<lparr> interval := Some h \<rparr> \<rparr>)"

text \<open>\<open>if (interval) clearInterval(interval)\<close>: a handle is truthy when it is not 0.\<close>

definition pauseTimer :: "app \<Rightarrow> app" where
  "pauseTimer s =
     (let s1 = (case interval (timerState s) of
                  None \<Rightarrow> s
                | Some h \<Rightarrow> if h \<noteq> 0 then clearInterval h s else s)
      in s1\<lparr> timerState := (timerState s1)\<lparr> isRunning := False, interval := None \<rparr> \<rparr>)"

definition resetTimer :: "app \<Rightarrow> app" where
  "resetTimer s =
     (let s1 = pauseTimer s
      in s1\<lparr> timerState := (timerState s1)\<lparr> timeRemaining := 0 \<rparr> \<rparr>)"

definition tickTimer :: "app \<Rightarrow> app" where
  "tickTimer s =
     (if timeRemaining (timerState s) > 0
      then s\<lparr> timerState := (timerState s)\<lparr> timeRemaining := timeRemaining (timerState s) - 1 \<rparr> \<rparr>
      else showToast TimerFinished (pauseTimer s))"

text \<open>
  One second passes for the periodic callback with handle \<open>h\<close>: it runs \<open>tickTimer\<close> if it
  is still scheduled, and a cancelled one never runs.
\<close>

definition fire :: "nat \<Rightarrow> app \<Rightarrow> app" where
  "fire h s = (if h \<in> set (intervals s) then tickTimer s else s)"

text \<open>The timer controls of the page and the ticks, as one sequence of operations.\<close>

datatype timer_op = SetDuration int | Start | Pause | Reset | Tick nat

fun timer_step :: "app \<Rightarrow> timer_op \<Rightarrow> app" where
  "timer_step s (SetDuration n) = setTimer n s"
| "timer_step s Start = startTimer s"
| "timer_step s Pause = pauseTimer s"
| "timer_step s Reset = resetTimer s"
| "timer_step s (Tick h) = fire h s"

definition timer_run :: "app \<Rightarrow> timer_op list \<Rightarrow> app" where
  "timer_run s ops = foldl timer_step s ops"

text \<open>The number of periodic callbacks that are scheduled and not cancelled.\<close>

definition tick_sources :: "app \<Rightarrow> nat" where
  "tick_sources s = length (remdups (intervals s))"

definition finished_count :: "app \<Rightarrow> nat" where
  "finished_count s = length (filter (\<lambda>t. t = TimerFinished) (toasts s))"

subsection \<open>First-seen-wins reduction, as the specification words it\<close>

text \<open>
  The specification's merge step: reduce the concatenated list by recipe identifier so
  that each identifier appears once, the first record seen for an identifier winning.
  This function is written from that sentence, to be compared with \<open>deduplicateRecipes\<close>.
\<close>

fun first_seen :: "recipe list \<Rightarrow> recipe list" where
  "first_seen [] = []"
| "first_seen (r # rs) = r # first_seen (filter (\<lambda>x. idMeal x \<noteq> idMeal r) rs)"

subsection \<open>Example data\<close>

definition recipe_A :: recipe where
  "recipe_A = \<lparr> idMeal = ''52772'', strMeal = ''Teriyaki Chicken Casserole'',
       strMealThumb = ''a.jpg'', strCategory = None, strArea = None,
       matchingIngredients = None \<rparr>"

definition recipe_B :: recipe where
  "recipe_B = \<lparr> idMeal = ''52814'', strMeal = ''Thai Green Curry'',
       strMealThumb = ''b.jpg'', strCategory = Some ''Chicken'', strArea = Some ''Thai'',
       matchingIngredients = None \<rparr>"

definition recipe_A2 :: recipe where
  "recipe_A2 = recipe_A\<lparr> strMeal := ''Teriyaki (rice listing)'' \<rparr>"

definition no_random :: "nat \<Rightarrow> rat" where
  "no_random n = 0"

definition half_random :: "nat \<Rightarrow> rat" where
  "half_random n = 1 / 2"

definition chicken_rice_app :: app where
  "chicken_rice_app =
     (initial_app no_random)\<lparr> selectedIngredients := [''chicken'', ''rice''],
        allRecipes := [recipe_B], filteredRecipes := [recipe_B] \<rparr>"

definition catalog_rice_down :: catalog where
  "catalog_rice_down i =
     (if i = ''chicken'' then Response True (Meals [recipe_A]) else NetworkFailure)"

definition catalog_ok :: catalog where
  "catalog_ok i =
     (if i = ''chicken'' then Response True (Meals [recipe_A])
      else if i = ''rice'' then Response True (Meals [recipe_A2, recipe_B])
      else Response True MealsNull)"

definition catalog_without_field :: catalog where
  "catalog_without_field i = Response True NoMealsField"


definition four_ingredient_app :: app where
  "four_ingredient_app =
     (initial_app half_random)\<lparr> selectedIngredients := [''chicken'', ''rice'', ''garlic'', ''onions''] \<rparr>"

definition unfiltered_app :: app where
  "unfiltered_app = (initial_app half_random)\<lparr> allRecipes := [recipe_B, recipe_A] \<rparr>"

definition thai_filter_app :: app where
  "thai_filter_app =
     (initial_app half_random)\<lparr> allRecipes := [recipe_B, recipe_A],
        currentFilter := \<lparr> time = [], category = ''chicken'', area = ''THAI'' \<rparr> \<rparr>"

definition thai_filter_app_later :: app where
  "thai_filter_app_later =
     thai_filter_app\<lparr> filteredRecipes := [recipe_A], random := no_random, drawn := 7 \<rparr>"

definition catalog_empty_list :: catalog where
  "catalog_empty_list i = Response True (Meals [])"

definition catalog_null_list :: catalog where
  "catalog_null_list i = Response True MealsNull"

subsection \<open>The ingredient set: invariant and operations\<close>






text \<open>
  The scenario of the timer: set 90 seconds, start, then let the periodic callback that
  this start scheduled fire \<open>n\<close> times.
\<close>

definition countdown :: "app \<Rightarrow> nat \<Rightarrow> app" where
  "countdown s n =
     timer_run s (SetDuration 90 # Start # replicate n (Tick (Suc (intervalCount s))))"

definition viewing_app :: app where
  "viewing_app =
     (initial_app no_random)\<lparr> favorites := {''52814''}, currentRecipe := Some recipe_A \<rparr>"

section \<open>Properties\<close>

subsection \<open>Search: helper lemmas\<close>

lemma promise_all_map_Inr: "promise_all (map Inr vs) = Inr vs"
  by (induction vs) auto

lemma promise_all_Inl:
  "Inl e \<in> set ps \<Longrightarrow> \<exists>e'. promise_all ps = Inl e'"
proof (induction ps rule: promise_all.induct)
  case 1 then show ?case by simp
next
  case (2 e ps) then show ?case by simp
next
  case (3 v ps) then show ?case by (auto split: sum.splits)
qed

lemma searchRecipes_rejected:
  assumes "selectedIngredients s \<noteq> []"
    and "promise_all (map (fetchRecipesByIngredient cat) (selectedIngredients s)) = Inl e"
  shows "searchRecipes cat s = s\<lparr> isLoading := False, error := Some search_failed \<rparr>"
  unfolding searchRecipes_def Let_def using assms by simp

lemma searchRecipes_resolved:
  assumes "selectedIngredients s \<noteq> []"
    and "promise_all (map (fetchRecipesByIngredient cat) (selectedIngredients s)) = Inr results"
  shows "searchRecipes cat s =
     applyFilters (s\<lparr> error := None,
        allRecipes := map (\<lambda>r. r\<lparr> matchingIngredients :=
                 Some (getMatchingIngredients r (selectedIngredients s)) \<rparr>)
           (deduplicateRecipes (concat results)),
        isLoading := False \<rparr>)"
  unfolding searchRecipes_def Let_def using assms by simp


lemma dedup_seen_ids:
  "set (map idMeal (dedup_seen seen rs)) = set (map idMeal rs) - seen"
  by (induction rs arbitrary: seen) auto

lemma dedup_seen_fresh: "r \<in> set (dedup_seen seen rs) \<Longrightarrow> idMeal r \<notin> seen"
  using dedup_seen_ids [of seen rs] by force

lemma dedup_seen_distinct: "distinct (map idMeal (dedup_seen seen rs))"
proof (induction rs arbitrary: seen)
  case Nil
  then show ?case by simp
next
  case (Cons a rs)
  have "idMeal a \<notin> idMeal ` set (dedup_seen (insert (idMeal a) seen) rs)"
  proof
    assume "idMeal a \<in> idMeal ` set (dedup_seen (insert (idMeal a) seen) rs)"
    then obtain x where x: "x \<in> set (dedup_seen (insert (idMeal a) seen) rs)" "idMeal a = idMeal x"
      by blast
    from x(1) have "idMeal x \<notin> insert (idMeal a) seen" by (rule dedup_seen_fresh)
    with x(2) show False by simp
  qed
  then show ?case using Cons.IH by simp
qed

lemma dedup_seen_find:
  "r \<in> set (dedup_seen seen rs) \<Longrightarrow> find (\<lambda>x. idMeal x = idMeal r) rs = Some r"
proof (induction rs arbitrary: seen)
  case Nil
  then show ?case by simp
next
  case (Cons a rs)
  show ?case
  proof (cases "idMeal a = idMeal r")
    case True
    have "r = a"
    proof (cases "idMeal a \<in> seen")
      case True
      with Cons.prems have "r \<in> set (dedup_seen seen rs)" by simp
      then have "idMeal r \<notin> seen" by (rule dedup_seen_fresh)
      with True \<open>idMeal a = idMeal r\<close> show ?thesis by simp
    next
      case False
      with Cons.prems have "r = a \<or> r \<in> set (dedup_seen (insert (idMeal a) seen) rs)"
        by auto
      moreover have "r \<notin> set (dedup_seen (insert (idMeal a) seen) rs)"
        using dedup_seen_fresh [of r "insert (idMeal a) seen" rs] \<open>idMeal a = idMeal r\<close> by auto
      ultimately show ?thesis by simp
    qed
    then show ?thesis by simp
  next
    case False
    with Cons.prems have "r \<in> set (dedup_seen seen rs) \<or> r \<in> set (dedup_seen (insert (idMeal a) seen) rs)"
      by (auto split: if_splits)
    then have "find (\<lambda>x. idMeal x = idMeal r) rs = Some r"
      using Cons.IH by blast
    with False show ?thesis by simp
  qed
qed

lemma dedup_seen_first_seen:
  "dedup_seen seen rs = first_seen (filter (\<lambda>x. idMeal x \<notin> seen) rs)"
proof (induction rs arbitrary: seen)
  case Nil
  then show ?case by simp
next
  case (Cons a rs)
  have "filter (\<lambda>x. idMeal x \<noteq> idMeal a) (filter (\<lambda>x. idMeal x \<notin> seen) rs)
      = filter (\<lambda>x. idMeal x \<notin> insert (idMeal a) seen) rs"
    by (simp add: conj_commute)
  then show ?case using Cons.IH by simp
qed

lemma applyFilters_allRecipes: "allRecipes (applyFilters s) = allRecipes s"
  by (simp add: applyFilters_def Let_def)

lemma in_filter_random: "x \<in> set (filter_random rnd k t xs) \<Longrightarrow> x \<in> set xs"
  by (induction xs arbitrary: k) (auto split: if_splits)

lemma applyFilters_subset: "r \<in> set (filteredRecipes (applyFilters s)) \<Longrightarrow> r \<in> set (allRecipes s)"
  by (auto simp: applyFilters_def Let_def split: if_splits dest!: in_filter_random)


subsection \<open>Search: failure of one fetch\<close>

lemma fetch_rejects:
  assumes "cat i = NetworkFailure \<or> (\<exists>b. cat i = Response False b)
           \<or> cat i = Response True NotJson \<or> cat i = Response True JsonNull"
  shows "\<exists>e. fetchRecipesByIngredient cat i = Inl e"
  using assms by (auto simp: fetchRecipesByIngredient_def)

text \<open>
  C1. For a non-empty ingredient set, if the fetch for any one selected ingredient fails
  (the network fails, the status is not a success, or the body is not JSON or is JSON
  \<open>null\<close>), the search ends in the error state (\<open>error\<close> holds the failure message,
  loading is over) and the stored recipe list and the displayed list are what they were
  before the search: nothing of the fetches that succeeded is merged in.
\<close>

theorem search_failure_no_partial_result:
  assumes "selectedIngredients s \<noteq> []"
    and "i \<in> set (selectedIngredients s)"
    and "cat i = NetworkFailure \<or> (\<exists>b. cat i = Response False b)
         \<or> cat i = Response True NotJson \<or> cat i = Response True JsonNull"
  shows "error (searchRecipes cat s) = Some search_failed
       \<and> allRecipes (searchRecipes cat s) = allRecipes s
       \<and> filteredRecipes (searchRecipes cat s) = filteredRecipes s
       \<and> isLoading (searchRecipes cat s) = False"
proof -
  from assms(3) obtain e where failed: "fetchRecipesByIngredient cat i = Inl e"
    using fetch_rejects by fastforce
  have "fetchRecipesByIngredient cat i \<in> fetchRecipesByIngredient cat ` set (selectedIngredients s)"
    using assms(2) by (rule imageI)
  then have "Inl e \<in> set (map (fetchRecipesByIngredient cat) (selectedIngredients s))"
    unfolding failed by simp
  then have "\<exists>e'. promise_all (map (fetchRecipesByIngredient cat) (selectedIngredients s)) = Inl e'"
    by (rule promise_all_Inl)
  then obtain e' where
    "promise_all (map (fetchRecipesByIngredient cat) (selectedIngredients s)) = Inl e'" ..
  with assms(1) have rejected:
    "searchRecipes cat s = s\<lparr> isLoading := False, error := Some search_failed \<rparr>"
    by (rule searchRecipes_rejected)
  show ?thesis unfolding rejected by simp
qed

theorem search_failure_no_partial_result_witness:
  "selectedIngredients chicken_rice_app \<noteq> []
   \<and> ''rice'' \<in> set (selectedIngredients chicken_rice_app)
   \<and> catalog_rice_down ''rice'' = NetworkFailure
   \<and> fetchRecipesByIngredient catalog_rice_down ''chicken'' = Inr [recipe_A]
   \<and> error (searchRecipes catalog_rice_down chicken_rice_app) = Some search_failed
   \<and> allRecipes (searchRecipes catalog_rice_down chicken_rice_app) = [recipe_B]
   \<and> filteredRecipes (searchRecipes catalog_rice_down chicken_rice_app) = [recipe_B]"
proof -
  have a: "selectedIngredients chicken_rice_app \<noteq> []"
    and b: "''rice'' \<in> set (selectedIngredients chicken_rice_app)"
    by (simp_all add: chicken_rice_app_def initial_app_def)
  have n: "catalog_rice_down ''rice'' = NetworkFailure"
    by (simp add: catalog_rice_down_def)
  then have c: "catalog_rice_down ''rice'' = NetworkFailure
      \<or> (\<exists>b. catalog_rice_down ''rice'' = Response False b)
      \<or> catalog_rice_down ''rice'' = Response True NotJson
      \<or> catalog_rice_down ''rice'' = Response True JsonNull" ..
  have d: "fetchRecipesByIngredient catalog_rice_down ''chicken'' = Inr [recipe_A]"
    by (simp add: fetchRecipesByIngredient_def catalog_rice_down_def)
  have e: "allRecipes chicken_rice_app = [recipe_B]" "filteredRecipes chicken_rice_app = [recipe_B]"
    by (simp_all add: chicken_rice_app_def initial_app_def)
  from search_failure_no_partial_result [of chicken_rice_app "''rice''" catalog_rice_down, OF a b c]
    a b n d e show ?thesis by simp
qed

lemma searchRecipes_success:
  assumes "selectedIngredients s \<noteq> []"
    and "map (fetchRecipesByIngredient cat) (selectedIngredients s) = map Inr results"
  shows "allRecipes (searchRecipes cat s) =
           map (\<lambda>r. r\<lparr> matchingIngredients :=
                          Some (getMatchingIngredients r (selectedIngredients s)) \<rparr>)
               (deduplicateRecipes (concat results))"
    and "error (searchRecipes cat s) = None"
proof -
  have "promise_all (map (fetchRecipesByIngredient cat) (selectedIngredients s)) = Inr results"
    unfolding assms(2) by (rule promise_all_map_Inr)
  with assms(1) have resolved: "searchRecipes cat s =
     applyFilters (s\<lparr> error := None,
        allRecipes := map (\<lambda>r. r\<lparr> matchingIngredients :=
                 Some (getMatchingIngredients r (selectedIngredients s)) \<rparr>)
           (deduplicateRecipes (concat results)),
        isLoading := False \<rparr>)"
    by (rule searchRecipes_resolved)
  show "allRecipes (searchRecipes cat s) =
           map (\<lambda>r. r\<lparr> matchingIngredients :=
                          Some (getMatchingIngredients r (selectedIngredients s)) \<rparr>)
               (deduplicateRecipes (concat results))"
    unfolding resolved applyFilters_allRecipes by simp
  show "error (searchRecipes cat s) = None"
    unfolding resolved by (simp add: applyFilters_def Let_def)
qed

subsection \<open>Search: merging and annotating\<close>

text \<open>
  C2. For a non-empty ingredient set whose fetches all succeed, with \<open>results\<close> the lists
  they return in the enumeration order of the ingredient set: every recipe identifier of
  the concatenated lists appears exactly once in the stored result, each stored record is
  the first record with its identifier in the concatenation (with the annotation added),
  and the stored sequence is the first-seen-wins reduction of the concatenation.
\<close>

theorem search_result_first_seen:
  assumes "selectedIngredients s \<noteq> []"
    and "map (fetchRecipesByIngredient cat) (selectedIngredients s) = map Inr results"
  shows "distinct (map idMeal (allRecipes (searchRecipes cat s)))
       \<and> set (map idMeal (allRecipes (searchRecipes cat s))) = set (map idMeal (concat results))
       \<and> (\<forall>r \<in> set (allRecipes (searchRecipes cat s)).
             \<exists>r0. find (\<lambda>x. idMeal x = idMeal r) (concat results) = Some r0
                \<and> r = r0\<lparr> matchingIngredients :=
                              Some (getMatchingIngredients r0 (selectedIngredients s)) \<rparr>)
       \<and> allRecipes (searchRecipes cat s) =
           map (\<lambda>r. r\<lparr> matchingIngredients :=
                          Some (getMatchingIngredients r (selectedIngredients s)) \<rparr>)
               (first_seen (concat results))"
proof -
  let ?ann = "\<lambda>r. r\<lparr> matchingIngredients :=
                          Some (getMatchingIngredients r (selectedIngredients s)) \<rparr>"
  let ?u = "deduplicateRecipes (concat results)"
  have res: "allRecipes (searchRecipes cat s) = map ?ann ?u"
    using assms by (rule searchRecipes_success(1))
  have ids: "map idMeal (allRecipes (searchRecipes cat s)) = map idMeal ?u"
    unfolding res by simp
  have 1: "distinct (map idMeal (allRecipes (searchRecipes cat s)))"
    unfolding ids deduplicateRecipes_def by (rule dedup_seen_distinct)
  have 2: "set (map idMeal (allRecipes (searchRecipes cat s))) = set (map idMeal (concat results))"
    unfolding ids deduplicateRecipes_def dedup_seen_ids by simp
  have 3: "\<exists>r0. find (\<lambda>x. idMeal x = idMeal r) (concat results) = Some r0 \<and> r = ?ann r0"
    if "r \<in> set (allRecipes (searchRecipes cat s))" for r
  proof -
    from that obtain r0 where r0: "r0 \<in> set ?u" "r = ?ann r0"
      unfolding res by auto
    from r0(1) have "find (\<lambda>x. idMeal x = idMeal r0) (concat results) = Some r0"
      unfolding deduplicateRecipes_def by (rule dedup_seen_find)
    moreover have "idMeal r = idMeal r0" using r0(2) by simp
    ultimately show ?thesis using r0(2) by simp
  qed
  have 4: "allRecipes (searchRecipes cat s) = map ?ann (first_seen (concat results))"
    unfolding res deduplicateRecipes_def dedup_seen_first_seen by simp
  from 1 2 3 4 show ?thesis by blast
qed


theorem search_result_first_seen_witness:
  "selectedIngredients chicken_rice_app \<noteq> []
   \<and> map (fetchRecipesByIngredient catalog_ok) (selectedIngredients chicken_rice_app)
       = map Inr [[recipe_A], [recipe_A2, recipe_B]]
   \<and> allRecipes (searchRecipes catalog_ok chicken_rice_app) =
       [recipe_A\<lparr> matchingIngredients := Some [''chicken'', ''rice''] \<rparr>,
        recipe_B\<lparr> matchingIngredients := Some [''chicken'', ''rice''] \<rparr>]"
proof -
  have a: "selectedIngredients chicken_rice_app \<noteq> []"
    by (simp add: chicken_rice_app_def initial_app_def)
  have b: "map (fetchRecipesByIngredient catalog_ok) (selectedIngredients chicken_rice_app)
       = map Inr [[recipe_A], [recipe_A2, recipe_B]]"
    by (simp add: chicken_rice_app_def initial_app_def fetchRecipesByIngredient_def catalog_ok_def)
  have c: "first_seen (concat [[recipe_A], [recipe_A2, recipe_B]]) = [recipe_A, recipe_B]"
    by (simp add: recipe_A_def recipe_A2_def recipe_B_def)
  have d: "selectedIngredients chicken_rice_app = [''chicken'', ''rice'']"
    by (simp add: chicken_rice_app_def initial_app_def)
  from search_result_first_seen [OF a b]
  have "allRecipes (searchRecipes catalog_ok chicken_rice_app) =
           map (\<lambda>r. r\<lparr> matchingIngredients :=
                          Some (getMatchingIngredients r (selectedIngredients chicken_rice_app)) \<rparr>)
               (first_seen (concat [[recipe_A], [recipe_A2, recipe_B]]))"
    by blast
  then have "allRecipes (searchRecipes catalog_ok chicken_rice_app) =
       [recipe_A\<lparr> matchingIngredients := Some [''chicken'', ''rice''] \<rparr>,
        recipe_B\<lparr> matchingIngredients := Some [''chicken'', ''rice''] \<rparr>]"
    unfolding c d by (simp add: getMatchingIngredients_def)
  with a b show ?thesis by blast
qed

text \<open>
  C3. Every recipe of a successful search, in the stored list and in the displayed list,
  has \<open>matchingIngredients\<close> equal to the first \<open>min (number of ingredients) 3\<close> selected
  ingredients in enumeration order, whatever the recipe is; its length is that minimum.
\<close>

theorem matchingIngredients_prefix:
  assumes "selectedIngredients s \<noteq> []"
    and "map (fetchRecipesByIngredient cat) (selectedIngredients s) = map Inr results"
    and "r \<in> set (allRecipes (searchRecipes cat s)) \<or> r \<in> set (filteredRecipes (searchRecipes cat s))"
  shows "\<exists>m. matchingIngredients r = Some m
           \<and> m = take (min (length (selectedIngredients s)) 3) (selectedIngredients s)
           \<and> length m = min (length (selectedIngredients s)) 3"
proof -
  let ?ann = "\<lambda>r. r\<lparr> matchingIngredients :=
                          Some (getMatchingIngredients r (selectedIngredients s)) \<rparr>"
  have res: "allRecipes (searchRecipes cat s) = map ?ann (deduplicateRecipes (concat results))"
    using assms(1,2) by (rule searchRecipes_success(1))
  have "r \<in> set (allRecipes (searchRecipes cat s))"
  proof -
    have "promise_all (map (fetchRecipesByIngredient cat) (selectedIngredients s)) = Inr results"
      unfolding assms(2) by (rule promise_all_map_Inr)
    with assms(1) have resolved: "searchRecipes cat s =
       applyFilters (s\<lparr> error := None,
          allRecipes := map ?ann (deduplicateRecipes (concat results)),
          isLoading := False \<rparr>)"
      by (rule searchRecipes_resolved)
    have "r \<in> set (allRecipes (searchRecipes cat s))" if "r \<in> set (filteredRecipes (searchRecipes cat s))"
    proof -
      from that have "r \<in> set (allRecipes (s\<lparr> error := None,
          allRecipes := map ?ann (deduplicateRecipes (concat results)),
          isLoading := False \<rparr>))"
        unfolding resolved by (rule applyFilters_subset)
      then show ?thesis unfolding res by simp
    qed
    with assms(3) show ?thesis by blast
  qed
  then obtain r0 where "r = ?ann r0"
    unfolding res by auto
  then have "matchingIngredients r = Some (take (min (length (selectedIngredients s)) 3) (selectedIngredients s))"
    by (simp add: getMatchingIngredients_def)
  then show ?thesis by simp
qed

theorem matchingIngredients_prefix_witness:
  "selectedIngredients four_ingredient_app \<noteq> []
   \<and> map (fetchRecipesByIngredient catalog_ok) (selectedIngredients four_ingredient_app)
       = map Inr [[recipe_A], [recipe_A2, recipe_B], [], []]
   \<and> recipe_B\<lparr> matchingIngredients := Some [''chicken'', ''rice'', ''garlic''] \<rparr>
        \<in> set (allRecipes (searchRecipes catalog_ok four_ingredient_app))
   \<and> (\<exists>m. matchingIngredients (recipe_B\<lparr> matchingIngredients := Some [''chicken'', ''rice'', ''garlic''] \<rparr>) = Some m
         \<and> m = [''chicken'', ''rice'', ''garlic''] \<and> length m = 3)"
proof -
  let ?r = "recipe_B\<lparr> matchingIngredients := Some [''chicken'', ''rice'', ''garlic''] \<rparr>"
  have a: "selectedIngredients four_ingredient_app \<noteq> []"
    by (simp add: four_ingredient_app_def initial_app_def)
  have b: "map (fetchRecipesByIngredient catalog_ok) (selectedIngredients four_ingredient_app)
       = map Inr [[recipe_A], [recipe_A2, recipe_B], [], []]"
    by (simp add: four_ingredient_app_def initial_app_def fetchRecipesByIngredient_def catalog_ok_def)
  have d: "selectedIngredients four_ingredient_app = [''chicken'', ''rice'', ''garlic'', ''onions'']"
    by (simp add: four_ingredient_app_def initial_app_def)
  have u: "deduplicateRecipes (concat [[recipe_A], [recipe_A2, recipe_B], [], []]) = [recipe_A, recipe_B]"
    by (simp add: deduplicateRecipes_def recipe_A_def recipe_A2_def recipe_B_def)
  have "allRecipes (searchRecipes catalog_ok four_ingredient_app) =
       [recipe_A\<lparr> matchingIngredients := Some [''chicken'', ''rice'', ''garlic''] \<rparr>, ?r]"
    unfolding searchRecipes_success(1) [OF a b] u d by (simp add: getMatchingIngredients_def)
  then have m: "?r \<in> set (allRecipes (searchRecipes catalog_ok four_ingredient_app))"
    by simp
  then have c: "?r \<in> set (allRecipes (searchRecipes catalog_ok four_ingredient_app))
      \<or> ?r \<in> set (filteredRecipes (searchRecipes catalog_ok four_ingredient_app))" ..
  have "\<exists>m. matchingIngredients ?r = Some m
         \<and> m = [''chicken'', ''rice'', ''garlic''] \<and> length m = 3"
    using matchingIngredients_prefix [OF a b c] unfolding d by simp
  with a b m show ?thesis by blast
qed

subsection \<open>Filters\<close>

lemma toLowerCase_example:
  "toLowerCase ''Chicken'' = ''chicken''" "toLowerCase ''Thai'' = ''thai''"
  "toLowerCase ''THAI'' = ''thai''" "toLowerCase ''chicken'' = ''chicken''"
  by code_simp+

text \<open>
  C6. With category, area and time bucket all empty, \<open>applyFilters\<close> stores the input
  sequence unchanged as the displayed list (and changes nothing else).
\<close>

theorem applyFilters_identity:
  assumes "category (currentFilter s) = []"
    and "area (currentFilter s) = []"
    and "time (currentFilter s) = []"
  shows "filteredRecipes (applyFilters s) = allRecipes s
       \<and> applyFilters s = s\<lparr> filteredRecipes := allRecipes s \<rparr>"
  using assms by (simp add: applyFilters_def truthy_def Let_def)

theorem applyFilters_identity_witness:
  "category (currentFilter unfiltered_app) = []
   \<and> area (currentFilter unfiltered_app) = []
   \<and> time (currentFilter unfiltered_app) = []
   \<and> filteredRecipes (applyFilters unfiltered_app) = [recipe_B, recipe_A]"
proof -
  have a: "category (currentFilter unfiltered_app) = []"
    and b: "area (currentFilter unfiltered_app) = []"
    and c: "time (currentFilter unfiltered_app) = []"
    and d: "allRecipes unfiltered_app = [recipe_B, recipe_A]"
    by (simp_all add: unfiltered_app_def initial_app_def)
  from applyFilters_identity [OF a b c] a b c d show ?thesis by simp
qed

text \<open>
  C7. When the time bucket is empty, the displayed list \<open>applyFilters\<close> computes depends
  only on the stored list and the criteria: two runs on the same list with the same
  criteria give the same list, whatever \<open>Math.random()\<close> would return and whatever else
  differs between the two states.
\<close>

theorem applyFilters_deterministic:
  assumes "time (currentFilter s) = []"
    and "allRecipes s' = allRecipes s"
    and "currentFilter s' = currentFilter s"
  shows "filteredRecipes (applyFilters s') = filteredRecipes (applyFilters s)"
  using assms by (simp add: applyFilters_def truthy_def Let_def)

theorem applyFilters_deterministic_witness:
  "time (currentFilter thai_filter_app) = []
   \<and> allRecipes thai_filter_app_later = allRecipes thai_filter_app
   \<and> currentFilter thai_filter_app_later = currentFilter thai_filter_app
   \<and> random thai_filter_app_later \<noteq> random thai_filter_app
   \<and> filteredRecipes (applyFilters thai_filter_app) = [recipe_B]
   \<and> filteredRecipes (applyFilters thai_filter_app_later) = [recipe_B]"
proof -
  have a: "time (currentFilter thai_filter_app) = []"
    and b: "allRecipes thai_filter_app_later = allRecipes thai_filter_app"
    and c: "currentFilter thai_filter_app_later = currentFilter thai_filter_app"
    by (simp_all add: thai_filter_app_later_def thai_filter_app_def initial_app_def)
  have "random thai_filter_app_later 0 \<noteq> random thai_filter_app 0"
    by (simp add: thai_filter_app_later_def thai_filter_app_def initial_app_def
        no_random_def half_random_def)
  then have d: "random thai_filter_app_later \<noteq> random thai_filter_app"
    by metis
  have e: "filteredRecipes (applyFilters thai_filter_app) = [recipe_B]"
    by (simp add: applyFilters_def thai_filter_app_def initial_app_def truthy_def Let_def
        tag_matches_def recipe_A_def recipe_B_def toLowerCase_example)
  from applyFilters_deterministic [OF a b c] a b c d e show ?thesis by simp
qed

subsection \<open>The fetch-by-ingredient call\<close>

text \<open>
  C8. The call fails when the transport fails, when the status is not a success, when the
  body is not JSON and when the body is JSON \<open>null\<close>, and in no other case. A body
  without the \<open>meals\<close> field does not fail: like a \<open>meals\<close> field that is \<open>null\<close> or
  empty it gives zero results. A non-empty \<open>meals\<close> array is returned as it is.
\<close>

theorem fetch_error_cases:
  "((\<exists>e. fetchRecipesByIngredient cat i = Inl e) \<longleftrightarrow>
      (cat i = NetworkFailure \<or> (\<exists>b. cat i = Response False b)
       \<or> cat i = Response True NotJson \<or> cat i = Response True JsonNull))
   \<and> (cat i = Response True NoMealsField \<or> cat i = Response True MealsNull
        \<or> cat i = Response True (Meals []) \<longrightarrow> fetchRecipesByIngredient cat i = Inr [])
   \<and> (\<forall>ms. cat i = Response True (Meals ms) \<longrightarrow> fetchRecipesByIngredient cat i = Inr ms)"
  by (auto simp: fetchRecipesByIngredient_def split: fetch_outcome.splits body.splits)

theorem fetch_error_cases_witness:
  "catalog_rice_down ''rice'' = NetworkFailure
   \<and> (\<exists>e. fetchRecipesByIngredient catalog_rice_down ''rice'' = Inl e)
   \<and> catalog_null_list ''rice'' = Response True MealsNull
   \<and> fetchRecipesByIngredient catalog_null_list ''rice'' = Inr []
   \<and> catalog_empty_list ''rice'' = Response True (Meals [])
   \<and> fetchRecipesByIngredient catalog_empty_list ''rice'' = Inr []
   \<and> catalog_without_field ''rice'' = Response True NoMealsField
   \<and> fetchRecipesByIngredient catalog_without_field ''rice'' = Inr []"
proof -
  have a: "catalog_rice_down ''rice'' = NetworkFailure"
    by (simp add: catalog_rice_down_def)
  have b: "catalog_null_list ''rice'' = Response True MealsNull"
    by (simp add: catalog_null_list_def)
  have c: "catalog_empty_list ''rice'' = Response True (Meals [])"
    by (simp add: catalog_empty_list_def)
  have d: "catalog_without_field ''rice'' = Response True NoMealsField"
    by (simp add: catalog_without_field_def)
  from fetch_error_cases [of catalog_rice_down "''rice''"] a
  have 1: "\<exists>e. fetchRecipesByIngredient catalog_rice_down ''rice'' = Inl e" by blast
  from fetch_error_cases [of catalog_null_list "''rice''"] b
  have 2: "fetchRecipesByIngredient catalog_null_list ''rice'' = Inr []" by blast
  from fetch_error_cases [of catalog_empty_list "''rice''"] c
  have 3: "fetchRecipesByIngredient catalog_empty_list ''rice'' = Inr []" by blast
  from fetch_error_cases [of catalog_without_field "''rice''"] d
  have 4: "fetchRecipesByIngredient catalog_without_field ''rice'' = Inr []" by blast
  from a b c d 1 2 3 4 show ?thesis by blast
qed

text \<open>
  A response whose body is an object without the \<open>meals\<close> field gives zero results,
  not an error.
\<close>

theorem fetch_missing_field_is_empty:
  "catalog_without_field ''chicken'' = Response True NoMealsField
   \<and> fetchRecipesByIngredient catalog_without_field ''chicken'' = Inr []"
  by (simp add: fetchRecipesByIngredient_def catalog_without_field_def)

subsection \<open>Ingredients\<close>






















subsection \<open>Favorites\<close>

lemma toggleFavorite_favorites:
  "currentRecipe s = Some r \<Longrightarrow>
   favorites (toggleFavorite s) =
     (if idMeal r \<in> favorites s then favorites s - {idMeal r} else insert (idMeal r) (favorites s))"
  by (simp add: toggleFavorite_def showToast_def Let_def)

lemma toggleFavorite_currentRecipe: "currentRecipe (toggleFavorite s) = currentRecipe s"
  by (simp add: toggleFavorite_def showToast_def Let_def split: option.splits)

text \<open>
  C10. With a recipe displayed, one \<open>toggleFavorite\<close> flips the membership of that
  recipe's identifier in the favorites and of no other identifier, so two calls restore
  the favorites; with no recipe displayed the call changes nothing.
\<close>

theorem toggleFavorite_involution:
  "(\<forall>r. currentRecipe s = Some r \<longrightarrow>
      favorites (toggleFavorite s) =
        (if idMeal r \<in> favorites s then favorites s - {idMeal r}
         else insert (idMeal r) (favorites s))
      \<and> (idMeal r \<in> favorites (toggleFavorite s) \<longleftrightarrow> idMeal r \<notin> favorites s)
      \<and> (\<forall>x. x \<noteq> idMeal r \<longrightarrow> (x \<in> favorites (toggleFavorite s) \<longleftrightarrow> x \<in> favorites s))
      \<and> favorites (toggleFavorite (toggleFavorite s)) = favorites s)
   \<and> (currentRecipe s = None \<longrightarrow> toggleFavorite s = s)"
proof -
  have "favorites (toggleFavorite (toggleFavorite s)) = favorites s"
    if r: "currentRecipe s = Some r" for r
  proof -
    have "currentRecipe (toggleFavorite s) = Some r"
      using r by (simp add: toggleFavorite_currentRecipe)
    then have "favorites (toggleFavorite (toggleFavorite s)) =
        (if idMeal r \<in> favorites (toggleFavorite s) then favorites (toggleFavorite s) - {idMeal r}
         else insert (idMeal r) (favorites (toggleFavorite s)))"
      by (rule toggleFavorite_favorites)
    then show ?thesis
      unfolding toggleFavorite_favorites [OF r] by auto
  qed
  moreover have "toggleFavorite s = s" if "currentRecipe s = None"
    using that by (simp add: toggleFavorite_def)
  ultimately show ?thesis
    by (auto simp: toggleFavorite_favorites)
qed

theorem toggleFavorite_involution_witness:
  "currentRecipe viewing_app = Some recipe_A
   \<and> favorites viewing_app = {''52814''}
   \<and> favorites (toggleFavorite viewing_app) = {''52772'', ''52814''}
   \<and> favorites (toggleFavorite (toggleFavorite viewing_app)) = {''52814''}
   \<and> currentRecipe (initial_app no_random) = None
   \<and> toggleFavorite (initial_app no_random) = initial_app no_random"
proof -
  have a: "currentRecipe viewing_app = Some recipe_A"
    and b: "favorites viewing_app = {''52814''}"
    and i: "idMeal recipe_A = ''52772''"
    and c: "currentRecipe (initial_app no_random) = None"
    by (simp_all add: viewing_app_def initial_app_def recipe_A_def)
  note t = toggleFavorite_involution [of viewing_app]
  from t a have "favorites (toggleFavorite viewing_app) =
        (if idMeal recipe_A \<in> favorites viewing_app then favorites viewing_app - {idMeal recipe_A}
         else insert (idMeal recipe_A) (favorites viewing_app))"
    by blast
  then have 1: "favorites (toggleFavorite viewing_app) = {''52772'', ''52814''}"
    unfolding b i by simp
  from t a have "favorites (toggleFavorite (toggleFavorite viewing_app)) = favorites viewing_app"
    by blast
  then have 2: "favorites (toggleFavorite (toggleFavorite viewing_app)) = {''52814''}"
    unfolding b .
  from toggleFavorite_involution [of "initial_app no_random"] c
  have 3: "toggleFavorite (initial_app no_random) = initial_app no_random"
    by blast
  from a b 1 2 c 3 show ?thesis by blast
qed

subsection \<open>The timer\<close>

lemma started:
  "startTimer (setTimer 90 s) =
     s\<lparr> timerState := (timerState s)\<lparr> isRunning := True, timeRemaining := 90,
                                       interval := Some (Suc (intervalCount s)) \<rparr>,
        intervals := Suc (intervalCount s) # intervals s,
        intervalCount := Suc (intervalCount s) \<rparr>"
  by (simp add: startTimer_def setTimer_def setInterval_def Let_def)

lemma fire_decrement:
  assumes "h \<in> set (intervals t)" and "0 < timeRemaining (timerState t)"
  shows "fire h t = t\<lparr> timerState := (timerState t)\<lparr> timeRemaining := timeRemaining (timerState t) - 1 \<rparr> \<rparr>"
  using assms by (simp add: fire_def tickTimer_def)

lemma fire_ticks:
  "h \<in> set (intervals t) \<Longrightarrow> int n \<le> timeRemaining (timerState t) \<Longrightarrow>
   foldl timer_step t (replicate n (Tick h)) =
     t\<lparr> timerState := (timerState t)\<lparr> timeRemaining := timeRemaining (timerState t) - int n \<rparr> \<rparr>"
proof (induction n arbitrary: t)
  case 0
  then show ?case by simp
next
  case (Suc n)
  let ?t1 = "t\<lparr> timerState := (timerState t)\<lparr> timeRemaining := timeRemaining (timerState t) - 1 \<rparr> \<rparr>"
  from Suc.prems have step: "fire h t = ?t1"
    by (intro fire_decrement) simp_all
  have "h \<in> set (intervals ?t1)" "int n \<le> timeRemaining (timerState ?t1)"
    using Suc.prems by simp_all
  then have "foldl timer_step ?t1 (replicate n (Tick h)) =
      ?t1\<lparr> timerState := (timerState ?t1)\<lparr> timeRemaining := timeRemaining (timerState ?t1) - int n \<rparr> \<rparr>"
    by (rule Suc.IH)
  then show ?case
    by (simp add: step algebra_simps)
qed

lemma fire_cancelled:
  "h \<notin> set (intervals t) \<Longrightarrow> foldl timer_step t (replicate n (Tick h)) = t"
  by (induction n) (simp_all add: fire_def)

lemma countdown_running:
  assumes "n \<le> 90"
  shows "countdown s n =
     s\<lparr> timerState := (timerState s)\<lparr> isRunning := True, timeRemaining := 90 - int n,
                                       interval := Some (Suc (intervalCount s)) \<rparr>,
        intervals := Suc (intervalCount s) # intervals s,
        intervalCount := Suc (intervalCount s) \<rparr>"
proof -
  let ?h = "Suc (intervalCount s)"
  let ?t = "startTimer (setTimer 90 s)"
  have "?h \<in> set (intervals ?t)" "int n \<le> timeRemaining (timerState ?t)"
    using assms by (simp_all add: started)
  then have "foldl timer_step ?t (replicate n (Tick ?h)) =
     ?t\<lparr> timerState := (timerState ?t)\<lparr> timeRemaining := timeRemaining (timerState ?t) - int n \<rparr> \<rparr>"
    by (rule fire_ticks)
  then show ?thesis
    by (simp add: countdown_def timer_run_def started)
qed

lemma countdown_finished:
  assumes "91 \<le> n"
  shows "countdown s n =
     s\<lparr> timerState := (timerState s)\<lparr> isRunning := False, timeRemaining := 0, interval := None \<rparr>,
        intervals := removeAll (Suc (intervalCount s)) (intervals s),
        intervalCount := Suc (intervalCount s),
        toasts := toasts s @ [TimerFinished] \<rparr>"
proof -
  let ?h = "Suc (intervalCount s)"
  let ?t90 = "countdown s 90"
  let ?t91 = "s\<lparr> timerState := (timerState s)\<lparr> isRunning := False, timeRemaining := 0, interval := None \<rparr>,
        intervals := removeAll ?h (intervals s),
        intervalCount := ?h,
        toasts := toasts s @ [TimerFinished] \<rparr>"
  define m where "m = n - 91"
  have n: "n = 90 + Suc m"
    using assms by (simp add: m_def)
  have split: "countdown s n = foldl timer_step (fire ?h ?t90) (replicate m (Tick ?h))"
    unfolding n countdown_def timer_run_def replicate_add by simp
  have t90: "?t90 = s\<lparr> timerState := (timerState s)\<lparr> isRunning := True, timeRemaining := 0,
                                       interval := Some ?h \<rparr>,
        intervals := ?h # intervals s, intervalCount := ?h \<rparr>"
    using countdown_running [of 90 s] by simp
  have t91: "fire ?h ?t90 = ?t91"
    unfolding t90
    by (simp add: fire_def tickTimer_def pauseTimer_def clearInterval_def showToast_def Let_def)
  have "?h \<notin> set (intervals ?t91)"
    by simp
  then have "foldl timer_step ?t91 (replicate m (Tick ?h)) = ?t91"
    by (rule fire_cancelled)
  then show ?thesis
    unfolding split t91 .
qed

text \<open>
  C4. At most one periodic tick source should be active in every reachable timer state.
  \<open>startTimer\<close> schedules a new periodic callback without cancelling the one whose
  handle \<open>timerState.interval\<close> holds: on a fresh application two starts in a row leave
  two callbacks scheduled, the handle of the first is overwritten, \<open>pauseTimer\<close> cancels
  only the second, and the first still counts the paused timer down.
\<close>

theorem startTimer_twice_two_tick_sources:
  "tick_sources (timer_run (initial_app no_random) [Start]) = 1
   \<and> tick_sources (timer_run (initial_app no_random) [Start, Start]) = 2
   \<and> intervals (timer_run (initial_app no_random) [Start, Start]) = [2, 1]
   \<and> interval (timerState (timer_run (initial_app no_random) [Start, Start])) = Some 2
   \<and> intervals (timer_run (initial_app no_random) [Start, Start, Pause]) = [1]
   \<and> isRunning (timerState (timer_run (initial_app no_random) [Start, Start, Pause])) = False
   \<and> timeRemaining (timerState (timer_run (initial_app no_random) [Start, Start, Pause])) = 300
   \<and> timeRemaining (timerState (timer_run (initial_app no_random) [Start, Start, Pause, Tick 1])) = 299"
  by (simp add: timer_run_def initial_app_def startTimer_def setTimer_def setInterval_def
      pauseTimer_def clearInterval_def fire_def tickTimer_def tick_sources_def Let_def)

text \<open>
  C5. From any state, after \<open>setTimer 90\<close> and \<open>startTimer\<close>, the remaining seconds after
  \<open>n \<le> 90\<close> ticks are \<open>90 - n\<close>, the timer is still running and no "finished" toast has
  been shown; so the remaining seconds are 0 at tick 90. The 91st tick stops the timer,
  cancels its callback and shows the "finished" toast, once; later ticks of that callback
  do not happen. The remaining seconds are never negative.
\<close>

theorem countdown_90_expires_at_tick_91:
  "(n \<le> 90 \<longrightarrow>
      timeRemaining (timerState (countdown s n)) = 90 - int n
      \<and> isRunning (timerState (countdown s n))
      \<and> finished_count (countdown s n) = finished_count s)
   \<and> (91 \<le> n \<longrightarrow>
      timeRemaining (timerState (countdown s n)) = 0
      \<and> \<not> isRunning (timerState (countdown s n))
      \<and> interval (timerState (countdown s n)) = None
      \<and> Suc (intervalCount s) \<notin> set (intervals (countdown s n))
      \<and> finished_count (countdown s n) = finished_count s + 1)
   \<and> 0 \<le> timeRemaining (timerState (countdown s n))"
proof (cases "n \<le> 90")
  case True
  then show ?thesis
    by (simp add: countdown_running finished_count_def)
next
  case False
  then have "91 \<le> n" by simp
  then show ?thesis
    by (simp add: countdown_finished finished_count_def)
qed

theorem countdown_90_expires_at_tick_91_witness:
  "(89::nat) \<le> 90 \<and> timeRemaining (timerState (countdown (initial_app no_random) 89)) = 1
   \<and> (91::nat) \<le> 91
   \<and> timeRemaining (timerState (countdown (initial_app no_random) 91)) = 0
   \<and> \<not> isRunning (timerState (countdown (initial_app no_random) 91))
   \<and> finished_count (countdown (initial_app no_random) 91) = 1"
proof -
  have f: "finished_count (initial_app no_random) = 0"
    by (simp add: finished_count_def initial_app_def)
  from countdown_90_expires_at_tick_91 [of 89 "initial_app no_random"]
  have 1: "timeRemaining (timerState (countdown (initial_app no_random) 89)) = 1"
    by simp
  from countdown_90_expires_at_tick_91 [of 91 "initial_app no_random"] f
  have 2: "timeRemaining (timerState (countdown (initial_app no_random) 91)) = 0
     \<and> \<not> isRunning (timerState (countdown (initial_app no_random) 91))
     \<and> finished_count (countdown (initial_app no_random) 91) = 1"
    by simp
  from 1 2 show ?thesis by simp
qed

text \<open>
  At tick 90 of the scenario on a fresh application the remaining seconds are 0, but the
  timer is running, its callback is scheduled and no "finished" toast has been shown: the
  state is not the expired one yet.
\<close>

theorem countdown_still_running_at_tick_90:
  "timeRemaining (timerState (countdown (initial_app no_random) 90)) = 0
   \<and> isRunning (timerState (countdown (initial_app no_random) 90)) = True
   \<and> interval (timerState (countdown (initial_app no_random) 90)) = Some 1
   \<and> intervals (countdown (initial_app no_random) 90) = [1]
   \<and> finished_count (countdown (initial_app no_random) 90) = 0"
  by (simp add: countdown_running finished_count_def initial_app_def)

end
